theory Spec2Isabelle
  imports Main
begin

section \<open>Types, type identities and pointers\<close>

text \<open>
  Object addresses are numbers; the null pointer is address 0. A cast between \<open>void*\<close>
  and a typed pointer keeps the address. A \<open>static_cast\<close> from a derived class pointer
  to a base class pointer may move the address (multiple or virtual inheritance); how far
  depends on the object layout, which the header does not fix.
\<close>

type_synonym addr = nat

definition nullptr :: addr where
  "nullptr = 0"

text \<open>
  The C++ types the header talks about: the two capability classes, the instances of the
  class template \<open>reference_handle\<close>, and any other type (\<open>User\<close>), named by a token
  of the caller's choice.
\<close>

datatype 'u cpp_type =
    User 'u
  | Opaque_ptr_provider_class
  | Cast_ptr_provider_class
  | Reference_handle_class "'u cpp_type"

text \<open>
  Modelled from the spec: \<open>typeinfo\<close>, declared in \<open>reference_handle.h\<close>, which is not
  among the sources. The spec calls it an opaque, equality-comparable token with a display
  name. The token of a type is the type itself, \<open>typeinfo(typeid(T))\<close> is \<open>T\<close>, and
  \<open>==\<close> is equality; the display name is read from the program (below).
\<close>

type_synonym 'u typeinfo = "'u cpp_type"

text \<open>
  What the translation unit fixes and the header leaves open:
  \<^item> \<open>type_name T\<close>: the string \<open>typeid(T).name()\<close>;
  \<^item> \<open>candidate_list U\<close>: \<open>None\<close> when \<open>known_conversions<U>\<close> is the primary template,
    \<open>Some [R1, ..., Rn]\<close> when the program specializes it with a body that returns
    \<open>as_type<U, R1, ..., Rn>(p, tinfo)\<close>;
  \<^item> \<open>adjust R T a\<close>: the address of the \<open>T\<close> subobject of the \<open>R\<close> object at the
    non-null address \<open>a\<close>, which is what \<open>static_cast<T*>\<close> of an \<open>R*\<close> yields.
\<close>

record 'u program =
  type_name :: "'u cpp_type \<Rightarrow> string"
  candidate_list :: "'u cpp_type \<Rightarrow> 'u cpp_type list option"
  adjust :: "'u cpp_type \<Rightarrow> 'u cpp_type \<Rightarrow> addr \<Rightarrow> addr"

text \<open>\<open>static_cast<T*>(p)\<close> for a \<open>void* p\<close>: the same address.\<close>

definition static_cast_void :: "'u cpp_type \<Rightarrow> addr \<Rightarrow> addr" where
  "static_cast_void T p = p"

text \<open>\<open>static_cast<T*>(q)\<close> for an \<open>R* q\<close>: null stays null, any other address is adjusted.\<close>

definition static_cast_ptr :: "('u, 'x) program_scheme \<Rightarrow> 'u cpp_type \<Rightarrow> 'u cpp_type \<Rightarrow> addr \<Rightarrow> addr" where
  "static_cast_ptr prog R T q = (if q = nullptr then nullptr else adjust prog R T q)"

section \<open>Trampoline casts\<close>

text \<open>
  \<open>as_type<T, R, RArgs...>(p, tinfo)\<close>. The list holds \<open>R, RArgs...\<close>; with the empty
  list the call is the terminal overload \<open>as_type<T>\<close>.
\<close>

fun as_type :: "('u, 'x) program_scheme \<Rightarrow> 'u cpp_type \<Rightarrow> 'u cpp_type list \<Rightarrow> addr \<Rightarrow> 'u typeinfo \<Rightarrow> addr" where
  "as_type prog T [] p tinfo =
     (if tinfo = T then static_cast_void T p else nullptr)"
| "as_type prog T (R # RArgs) p tinfo =
     (if tinfo = R then static_cast_ptr prog R T (static_cast_void R p)
      else as_type prog T RArgs p tinfo)"

text \<open>
  \<open>known_conversions<U>::dyn_cast(p, tinfo)\<close>. The first branch is the primary template
  of the header. The second is modelled from the spec: a specialization declares an ordered
  candidate list and walks it with \<open>as_type\<close>; no specialization is among the sources.
\<close>

definition dyn_cast :: "('u, 'x) program_scheme \<Rightarrow> 'u cpp_type \<Rightarrow> addr \<Rightarrow> 'u typeinfo \<Rightarrow> addr" where
  "dyn_cast prog U p tinfo =
     (case candidate_list prog U of
        None \<Rightarrow> (if U = tinfo then static_cast_void U p else nullptr)
      | Some Rs \<Rightarrow> as_type prog U Rs p tinfo)"

section \<open>Providers\<close>

text \<open>
  A \<open>std::shared_ptr\<close> value: the stored pointer and the index of its control block in
  the store of control blocks (see the ownership section).
\<close>

record shared_ptr =
  sp_get :: addr
  sp_block :: nat

text \<open>
  An object of class \<open>reference_handle<T>\<close>: the template argument and the member
  \<open>sharedPtr\<close>. Every constructor passes \<open>typeid(T)\<close> to the base class, so the recorded
  type of a \<open>reference_handle<T>\<close> is \<open>T\<close>.
\<close>

record 'u reference_handle =
  handle_type :: "'u cpp_type"
  sharedPtr :: shared_ptr

text \<open>
  What an \<open>opaque_ptr_provider*\<close> can point to: a reference handle, an object of another
  class \<open>User c\<close> derived from \<open>cast_ptr_provider\<close>, or an object of a class \<open>User c\<close>
  derived from \<open>opaque_ptr_provider\<close> only. The last two carry the type identity given to
  the base class constructor and the answer of their own \<open>get_void_ptr()\<close>. Classes derived
  from \<open>reference_handle<T>\<close> or from another provider class are left out: the repository
  has none. A pointer to a provider is a \<open>provider option\<close>, with \<open>None\<close> for the null
  pointer.
\<close>

datatype 'u provider =
    Handle "'u reference_handle"
  | Cast_provider 'u "'u typeinfo" addr
  | Opaque_provider 'u "'u typeinfo" addr

definition get_ptr :: "'u reference_handle \<Rightarrow> addr" where
  "get_ptr h = sp_get (sharedPtr h)"

fun get_void_ptr :: "'u provider \<Rightarrow> addr" where
  "get_void_ptr (Handle h) = get_ptr h"
| "get_void_ptr (Cast_provider c tinfo p) = p"
| "get_void_ptr (Opaque_provider c tinfo p) = p"

fun wrapped_type_info :: "'u provider \<Rightarrow> 'u typeinfo" where
  "wrapped_type_info (Handle h) = handle_type h"
| "wrapped_type_info (Cast_provider c tinfo p) = tinfo"
| "wrapped_type_info (Opaque_provider c tinfo p) = tinfo"

definition wrapped_type_name :: "('u, 'x) program_scheme \<Rightarrow> 'u provider \<Rightarrow> string" where
  "wrapped_type_name prog pr = type_name prog (wrapped_type_info pr)"

fun dynamic_class :: "'u provider \<Rightarrow> 'u cpp_type" where
  "dynamic_class (Handle h) = Reference_handle_class (handle_type h)"
| "dynamic_class (Cast_provider c tinfo p) = User c"
| "dynamic_class (Opaque_provider c tinfo p) = User c"

fun is_cast_ptr_provider :: "'u provider \<Rightarrow> bool" where
  "is_cast_ptr_provider (Handle h) = True"
| "is_cast_ptr_provider (Cast_provider c tinfo p) = True"
| "is_cast_ptr_provider (Opaque_provider c tinfo p) = False"

text \<open>
  \<open>dynamic_cast<T*>(pr)\<close> on a non-null provider pointer: the same object when its class
  is \<open>T\<close> or derives from \<open>T\<close>, the null pointer otherwise.
\<close>

definition dynamic_cast :: "'u cpp_type \<Rightarrow> 'u provider \<Rightarrow> 'u provider option" where
  "dynamic_cast T pr =
     (if T = dynamic_class pr \<or> T = Opaque_ptr_provider_class
         \<or> (T = Cast_ptr_provider_class \<and> is_cast_ptr_provider pr)
      then Some pr else None)"

text \<open>The members of \<open>cast_ptr_provider\<close>.\<close>

definition dynamic_cast_to :: "('u, 'x) program_scheme \<Rightarrow> 'u cpp_type \<Rightarrow> 'u provider \<Rightarrow> addr" where
  "dynamic_cast_to prog U pr = dyn_cast prog U (get_void_ptr pr) (wrapped_type_info pr)"

definition can_cast_to :: "('u, 'x) program_scheme \<Rightarrow> 'u cpp_type \<Rightarrow> 'u provider \<Rightarrow> bool" where
  "can_cast_to prog U pr = (dynamic_cast_to prog U pr \<noteq> nullptr)"

section \<open>Faults\<close>

text \<open>
  \<open>std::invalid_argument\<close> with its message; \<open>std::bad_array_new_length\<close>, which
  \<open>new T*[n]\<close> throws for a negative \<open>n\<close>; and the reads the language leaves undefined
  (a member call through a null pointer, an array read past the end).
\<close>

datatype error =
    Invalid_argument string
  | Bad_array_new_length
  | Undefined_behaviour

section \<open>Boundary marshalling helpers\<close>

definition checked_downcast :: "('u, 'x) program_scheme \<Rightarrow> 'u cpp_type \<Rightarrow> 'u provider option \<Rightarrow> error + 'u provider" where
  "checked_downcast prog T provider_ptr =
     (case provider_ptr of
        None \<Rightarrow> Inl (Invalid_argument ''The pointer to a reference handle is nullptr'')
      | Some pr \<Rightarrow>
          (case dynamic_cast T pr of
             None \<Rightarrow>
               (let expected = type_name prog T;
                    actual = wrapped_type_name prog pr;
                    errorMsg = ''Expected type '' @ expected
                      @ '', but got an opaque pointer to a type '' @ actual
                in Inl (Invalid_argument errorMsg))
           | Some result \<Rightarrow> Inr result))"

definition checked_reference_handle :: "('u, 'x) program_scheme \<Rightarrow> 'u cpp_type \<Rightarrow> 'u provider option \<Rightarrow> error + 'u provider" where
  "checked_reference_handle prog T provider_ptr =
     checked_downcast prog (Reference_handle_class T) provider_ptr"

text \<open>
  \<open>as_raw_pointers\<close>: the array \<open>sharedPtrs\<close> is a list of provider pointers, \<open>n\<close> the
  \<open>int\<close> argument. The loop writes \<open>result[i]\<close> for \<open>i = 0, 1, ...\<close> while \<open>i < n\<close>.
  The fresh array is not initialised by \<open>new\<close>; the model fills it with null pointers.
\<close>

function as_raw_pointers_loop ::
  "'u cpp_type \<Rightarrow> 'u provider option list \<Rightarrow> nat \<Rightarrow> nat \<Rightarrow> addr list \<Rightarrow> error + addr list" where
  "as_raw_pointers_loop T sharedPtrs n i result =
     (if i < n then
        (if i < length sharedPtrs then
           (case sharedPtrs ! i of
              None \<Rightarrow> Inl Undefined_behaviour
            | Some pr \<Rightarrow>
                as_raw_pointers_loop T sharedPtrs n (Suc i)
                  (result[i := static_cast_void T (get_void_ptr pr)]))
         else Inl Undefined_behaviour)
      else Inr result)"
  by pat_completeness auto
termination
  by (relation "measure (\<lambda>(T, sharedPtrs, n, i, result). n - i)") auto

definition as_raw_pointers :: "'u cpp_type \<Rightarrow> 'u provider option list \<Rightarrow> int \<Rightarrow> error + addr list" where
  "as_raw_pointers T sharedPtrs n =
     (if n < 0 then Inl Bad_array_new_length
      else as_raw_pointers_loop T sharedPtrs (nat n) 0 (replicate (nat n) nullptr))"

definition as_raw_pointer :: "('u, 'x) program_scheme \<Rightarrow> 'u cpp_type \<Rightarrow> 'u provider option \<Rightarrow> error + addr" where
  "as_raw_pointer prog T provider_ptr =
     (case provider_ptr of
        None \<Rightarrow> Inl (Invalid_argument ''Pointer is nullptr - not accepted by the API'')
      | Some pr \<Rightarrow>
          (case dynamic_cast (Reference_handle_class T) pr of
             Some (Handle sp) \<Rightarrow> Inr (get_ptr sp)
           | _ \<Rightarrow>
               (case dynamic_cast Cast_ptr_provider_class pr of
                  None \<Rightarrow> Inl (Invalid_argument
                    ''Opaque pointer wrapper is not a cast_ptr_provider - not accepted by the API'')
                | Some cpp \<Rightarrow>
                    (let result = dynamic_cast_to prog T cpp
                     in if result = nullptr then
                          (let expected = type_name prog T;
                               actual = wrapped_type_name prog pr;
                               errorMsg = ''Cannot cast pointer to '' @ actual
                                 @ '' to a pointer to '' @ expected
                           in Inl (Invalid_argument errorMsg))
                        else Inr result))))"

section \<open>Shared ownership\<close>

text \<open>
  The store behind \<open>std::shared_ptr\<close>: one control block per managed object, found by
  its index. A block keeps the managed address, the type whose destructor its deleter runs,
  and the number of \<open>shared_ptr\<close> values that share it. A block whose count fell to 0
  stays in the list, so the index of a new block is never that of an old one.
  \<open>destructor_calls\<close> is the log of the destructors run so far, oldest first.
  \<open>handles\<close> is the map of the ownership registry (the singleton
  \<open>reference_handle_map::instance()\<close>), from object address to the registry's own
  \<open>shared_ptr\<close>.
\<close>

record 'u control_block =
  managed :: addr
  deleter_type :: "'u cpp_type"
  use_count :: nat

record 'u state =
  blocks :: "'u control_block list"
  handles :: "addr \<Rightarrow> shared_ptr option"
  destructor_calls :: "('u cpp_type \<times> addr) list"

text \<open>\<open>sp.use_count()\<close>.\<close>

definition sp_use_count :: "'u state \<Rightarrow> shared_ptr \<Rightarrow> nat" where
  "sp_use_count s sp =
     (if sp_block sp < length (blocks s) then use_count (blocks s ! sp_block sp) else 0)"

text \<open>\<open>std::shared_ptr<T> ptr(p)\<close>: a new control block whose deleter is \<open>delete (T*)p\<close>.\<close>

definition sp_new :: "'u cpp_type \<Rightarrow> addr \<Rightarrow> 'u state \<Rightarrow> shared_ptr \<times> 'u state" where
  "sp_new T p s =
     (\<lparr>sp_get = p, sp_block = length (blocks s)\<rparr>,
      s\<lparr>blocks := blocks s @ [\<lparr>managed = p, deleter_type = T, use_count = 1\<rparr>]\<rparr>)"

text \<open>
  Copying a \<open>shared_ptr\<close>, also through \<open>std::static_pointer_cast\<close>: one more share of
  the same block. A \<open>shared_ptr\<close> whose block is not in the store cannot arise from the
  operations below; copying it changes nothing.
\<close>

definition sp_copy :: "shared_ptr \<Rightarrow> 'u state \<Rightarrow> shared_ptr \<times> 'u state" where
  "sp_copy sp s =
     (let i = sp_block sp
      in if i < length (blocks s) then
           (let b = blocks s ! i
            in (sp, s\<lparr>blocks := (blocks s)[i := b\<lparr>use_count := Suc (use_count b)\<rparr>]\<rparr>))
         else (sp, s))"

text \<open>
  The destructor of a \<open>shared_ptr\<close>: one share less, and the deleter runs when the last
  share goes.
\<close>

definition sp_destroy :: "shared_ptr \<Rightarrow> 'u state \<Rightarrow> 'u state" where
  "sp_destroy sp s =
     (let i = sp_block sp
      in if i < length (blocks s) \<and> 0 < use_count (blocks s ! i) then
           (let b = blocks s ! i;
                c = use_count b - 1;
                s' = s\<lparr>blocks := (blocks s)[i := b\<lparr>use_count := c\<rparr>]\<rparr>
            in if c = 0 then
                 s'\<lparr>destructor_calls := destructor_calls s' @ [(deleter_type b, managed b)]\<rparr>
               else s')
         else s)"

text \<open>
  \<open>reference_handle<T>::create_shared_ptr(p)\<close>: a \<open>shared_ptr<T>\<close> over \<open>p\<close>, cast to
  \<open>shared_ptr<void>\<close>; the local \<open>ptr\<close> is destroyed on return.
\<close>

definition create_shared_ptr :: "'u cpp_type \<Rightarrow> addr \<Rightarrow> 'u state \<Rightarrow> shared_ptr \<times> 'u state" where
  "create_shared_ptr T p s =
     (let typed_p = static_cast_void T p;
          (ptr, s1) = sp_new T typed_p s;
          (res, s2) = sp_copy ptr s1
      in (res, sp_destroy ptr s2))"

text \<open>
  Modelled from the spec: \<open>reference_handle_map::get\<close>, which is declared and defined
  outside the sources. The spec: it returns the existing ownership block for the address if
  present (incrementing its share), otherwise invokes the factory to build one and inserts
  it. The registry keeps a share of its own of every block in its map (the bookkeeping
  reference); the caller receives another.
\<close>

definition reference_handle_map_get ::
  "addr \<Rightarrow> (addr \<Rightarrow> 'u state \<Rightarrow> shared_ptr \<times> 'u state) \<Rightarrow> 'u state \<Rightarrow> shared_ptr \<times> 'u state" where
  "reference_handle_map_get p factory s =
     (case handles s p of
        Some sp \<Rightarrow> sp_copy sp s
      | None \<Rightarrow>
          (let (sp, s1) = factory p s;
               (kept, s2) = sp_copy sp s1
           in (sp, s2\<lparr>handles := (handles s2)(p \<mapsto> kept)\<rparr>)))"

text \<open>
  Modelled from the spec: \<open>reference_handle_map::release\<close>, which is declared and defined
  outside the sources. The spec: it decrements the block's share; when it reaches zero, it
  erases the entry and allows destruction to proceed. The share given up is that of the
  handle being destroyed, whose member \<open>sharedPtr\<close> goes right after the call (see the
  destructor below); it is the last one when the block is shared by that handle and the
  registry only. Erasing the entry destroys the registry's \<open>shared_ptr\<close>.
\<close>

definition reference_handle_map_release :: "addr \<Rightarrow> 'u state \<Rightarrow> 'u state" where
  "reference_handle_map_release p s =
     (case handles s p of
        None \<Rightarrow> s
      | Some sp \<Rightarrow>
          (if sp_use_count s sp \<le> 2 then sp_destroy sp (s\<lparr>handles := (handles s)(p := None)\<rparr>)
           else s))"

section \<open>Reference handles\<close>

text \<open>
  \<open>find_shared_ptr(p)\<close>: the \<open>shared_ptr<void>\<close> that the registry returns is cast to
  \<open>shared_ptr<T>\<close> (a copy) and destroyed as a temporary.
\<close>

definition find_shared_ptr :: "'u cpp_type \<Rightarrow> addr \<Rightarrow> 'u state \<Rightarrow> shared_ptr \<times> 'u state" where
  "find_shared_ptr T p s =
     (let (tmp, s1) = reference_handle_map_get p (create_shared_ptr T) s;
          (res, s2) = sp_copy tmp s1
      in (res, sp_destroy tmp s2))"

text \<open>
  \<open>reference_handle(const T& object)\<close>; \<open>fresh\<close> is the address that \<open>new T(object)\<close>
  returns, which is never null.
\<close>

definition reference_handle_of_value :: "'u cpp_type \<Rightarrow> addr \<Rightarrow> 'u state \<Rightarrow> 'u reference_handle \<times> 'u state" where
  "reference_handle_of_value T fresh s =
     (let (sp, s') = find_shared_ptr T fresh s
      in (\<lparr>handle_type = T, sharedPtr = sp\<rparr>, s'))"

text \<open>\<open>reference_handle(T* p)\<close>.\<close>

definition reference_handle_of_ptr ::
  "'u cpp_type \<Rightarrow> addr \<Rightarrow> 'u state \<Rightarrow> error + ('u reference_handle \<times> 'u state)" where
  "reference_handle_of_ptr T p s =
     (if p = nullptr then Inl (Invalid_argument ''Pointer must not be nullptr'')
      else (let (sp, s') = find_shared_ptr T p s
            in Inr (\<lparr>handle_type = T, sharedPtr = sp\<rparr>, s')))"

text \<open>\<open>reference_handle(const reference_handle<T>& ptr)\<close>.\<close>

definition reference_handle_copy :: "'u reference_handle \<Rightarrow> 'u state \<Rightarrow> 'u reference_handle \<times> 'u state" where
  "reference_handle_copy ptr s =
     (let (sp, s') = find_shared_ptr (handle_type ptr) (sp_get (sharedPtr ptr)) s
      in (\<lparr>handle_type = handle_type ptr, sharedPtr = sp\<rparr>, s'))"

text \<open>
  \<open>~reference_handle()\<close>: the body releases the address at the registry, then the member
  \<open>sharedPtr\<close> is destroyed.
\<close>

definition reference_handle_destroy :: "'u reference_handle \<Rightarrow> 'u state \<Rightarrow> 'u state" where
  "reference_handle_destroy h s =
     sp_destroy (sharedPtr h) (reference_handle_map_release (get_ptr h) s)"

definition new_reference_handle ::
  "'u reference_handle \<Rightarrow> 'u state \<Rightarrow> error + ('u reference_handle \<times> 'u state)" where
  "new_reference_handle h s = reference_handle_of_ptr (handle_type h) (get_ptr h) s"

text \<open>\<open>count()\<close>, a \<open>long\<close>.\<close>

definition count :: "'u state \<Rightarrow> 'u reference_handle \<Rightarrow> int" where
  "count s h = int (sp_use_count s (sharedPtr h)) - 1"

section \<open>Auxiliary notions and sample data\<close>

text \<open>
  A recorded type has a declared conversion to \<open>T\<close> when it is \<open>T\<close> itself or a member of
  the candidate list of \<open>T\<close>.
\<close>

definition declared_conversion :: "('u, 'x) program_scheme \<Rightarrow> 'u cpp_type \<Rightarrow> 'u typeinfo \<Rightarrow> bool" where
  "declared_conversion prog T tinfo =
     (tinfo = T \<or> tinfo \<in> set (case candidate_list prog T of None \<Rightarrow> [] | Some Rs \<Rightarrow> Rs))"

text \<open>
  A sample program: types are named by strings, \<open>animal\<close> declares the candidates
  \<open>dog, cat\<close>, and every base subobject lies 8 bytes into its object.
\<close>

definition zoo :: "string program" where
  "zoo = \<lparr>type_name = (\<lambda>T. case T of User n \<Rightarrow> n | Opaque_ptr_provider_class \<Rightarrow> ''opaque_ptr_provider''
              | Cast_ptr_provider_class \<Rightarrow> ''cast_ptr_provider''
              | Reference_handle_class R \<Rightarrow> ''reference_handle''),
          candidate_list = (\<lambda>T. if T = User ''animal'' then Some [User ''dog'', User ''cat''] else None),
          adjust = (\<lambda>R T a. a + 8)\<rparr>"

text \<open>
  A handle of \<open>T\<close> over address \<open>p\<close> that shares control block 0.
\<close>

definition handle_at :: "'u cpp_type \<Rightarrow> addr \<Rightarrow> 'u reference_handle" where
  "handle_at T p = \<lparr>handle_type = T, sharedPtr = \<lparr>sp_get = p, sp_block = 0\<rparr>\<rparr>"

definition empty_state :: "'u state" where
  "empty_state = \<lparr>blocks = [], handles = (\<lambda>a. None), destructor_calls = []\<rparr>"

text \<open>
  The state reached from the empty one by \<open>reference_handle<dog>(p)\<close> with \<open>p\<close> at
  address 16.
\<close>

definition one_dog :: "string state" where
  "one_dog = \<lparr>blocks = [\<lparr>managed = 16, deleter_type = User ''dog'', use_count = 2\<rparr>],
              handles = (\<lambda>a. None)(16 \<mapsto> \<lparr>sp_get = 16, sp_block = 0\<rparr>),
              destructor_calls = []\<rparr>"

text \<open>
  Starting from \<open>s\<close>, the state in which the address \<open>p\<close>, unknown to the registry of
  \<open>s\<close>, has been registered and is held by \<open>k\<close> handles, and the value of each of
  these handles.
\<close>

definition shared_by :: "'u state \<Rightarrow> 'u cpp_type \<Rightarrow> addr \<Rightarrow> nat \<Rightarrow> 'u state" where
  "shared_by s T p k =
     s\<lparr>blocks := blocks s @ [\<lparr>managed = p, deleter_type = T, use_count = Suc k\<rparr>],
       handles := (handles s)(p \<mapsto> \<lparr>sp_get = p, sp_block = length (blocks s)\<rparr>)\<rparr>"

definition fresh_handle :: "'u state \<Rightarrow> 'u cpp_type \<Rightarrow> addr \<Rightarrow> 'u reference_handle" where
  "fresh_handle s T p = \<lparr>handle_type = T, sharedPtr = \<lparr>sp_get = p, sp_block = length (blocks s)\<rparr>\<rparr>"

section \<open>Properties of the trampoline cast\<close>

lemma as_type_no_match:
  "tinfo \<notin> set Rs \<Longrightarrow> as_type prog T Rs p tinfo = (if tinfo = T then static_cast_void T p else nullptr)"
  by (induction Rs) auto

lemma as_type_skip:
  "tinfo \<notin> set skipped \<Longrightarrow> as_type prog T (skipped @ Rs) p tinfo = as_type prog T Rs p tinfo"
  by (induction skipped) auto

text \<open>
  C6. For a target type \<open>T\<close> with a declared candidate list, the cast compares the recorded
  type identity with the candidates from left to right: the candidates before \<open>R\<close> that do
  not match are passed over; if \<open>R\<close> matches, the result is the stored pointer cast to
  \<open>R*\<close> and from there to \<open>T*\<close>; if it does not, the walk goes on with the candidates
  after \<open>R\<close>.
\<close>

theorem trampoline_walks_left_to_right:
  assumes "tinfo \<notin> set skipped"
  shows "as_type prog T (skipped @ R # rest) p tinfo =
           (if tinfo = R then static_cast_ptr prog R T (static_cast_void R p)
            else as_type prog T rest p tinfo)
       \<and> (candidate_list prog T = Some (skipped @ R # rest) \<longrightarrow>
            dyn_cast prog T p tinfo =
              (if tinfo = R then static_cast_ptr prog R T (static_cast_void R p)
               else as_type prog T rest p tinfo))"
  using assms by (simp add: dyn_cast_def as_type_skip)

theorem trampoline_walks_left_to_right_witness:
  "User ''cat'' \<notin> set [User ''dog'']
   \<and> as_type zoo (User ''animal'') ([User ''dog''] @ User ''cat'' # []) 16 (User ''cat'') = 24
   \<and> candidate_list zoo (User ''animal'') = Some ([User ''dog''] @ User ''cat'' # [])
   \<and> dyn_cast zoo (User ''animal'') 16 (User ''cat'') = 24"
  using trampoline_walks_left_to_right [of "User ''cat''" "[User ''dog'']" zoo "User ''animal''"
      "User ''cat''" "[]" 16]
  by (simp add: zoo_def static_cast_ptr_def static_cast_void_def nullptr_def)

text \<open>
  C3, as the claim states it: the cast is non-null exactly when the recorded identity is that
  of the target. A provider of class \<open>crate\<close> derived from \<open>cast_ptr_provider\<close> records
  \<open>dog\<close> and answers \<open>get_void_ptr()\<close> with the null pointer; \<open>dog\<close> has no candidate
  list. The identities are equal, and \<open>dynamic_cast_to<dog>()\<close> still returns the null
  pointer, since \<open>static_cast<dog*>\<close> of a null \<open>void*\<close> is null.
\<close>

theorem default_cast_null_pointer_counterexample:
  "candidate_list zoo (User ''dog'') = None
   \<and> is_cast_ptr_provider (Cast_provider ''crate'' (User ''dog'') nullptr)
   \<and> wrapped_type_info (Cast_provider ''crate'' (User ''dog'') nullptr) = User ''dog''
   \<and> dynamic_cast_to zoo (User ''dog'') (Cast_provider ''crate'' (User ''dog'') nullptr) = nullptr
   \<and> \<not> can_cast_to zoo (User ''dog'') (Cast_provider ''crate'' (User ''dog'') nullptr)"
  by (simp add: zoo_def dynamic_cast_to_def dyn_cast_def static_cast_void_def can_cast_to_def)

text \<open>
  C3, amended. For a target type \<open>U\<close> without a candidate list, \<open>dynamic_cast_to<U>()\<close>
  returns a non-null pointer exactly when the recorded type identity is that of \<open>U\<close> and
  the stored pointer is not null. On a match the result is the stored pointer; without a
  match it is the null pointer, whatever the stored pointer is: the stored pointer is never
  reinterpreted unconditionally.
\<close>

theorem default_cast_exact_identity:
  assumes "candidate_list prog U = None"
  shows "(dynamic_cast_to prog U pr \<noteq> nullptr)
            = (wrapped_type_info pr = U \<and> get_void_ptr pr \<noteq> nullptr)
       \<and> (wrapped_type_info pr = U \<longrightarrow> dynamic_cast_to prog U pr = get_void_ptr pr)
       \<and> (wrapped_type_info pr \<noteq> U \<longrightarrow> dynamic_cast_to prog U pr = nullptr)"
  using assms by (auto simp: dynamic_cast_to_def dyn_cast_def static_cast_void_def)

theorem default_cast_exact_identity_witness:
  "candidate_list zoo (User ''dog'') = None
   \<and> get_void_ptr (Handle (handle_at (User ''dog'') 16)) \<noteq> nullptr
   \<and> wrapped_type_info (Handle (handle_at (User ''dog'') 16)) = User ''dog''
   \<and> dynamic_cast_to zoo (User ''dog'') (Handle (handle_at (User ''dog'') 16)) = 16
   \<and> dynamic_cast_to zoo (User ''dog'') (Handle (handle_at (User ''dog'') 16)) \<noteq> nullptr
   \<and> wrapped_type_info (Handle (handle_at (User ''cat'') 16)) \<noteq> User ''dog''
   \<and> dynamic_cast_to zoo (User ''dog'') (Handle (handle_at (User ''cat'') 16)) = nullptr"
  using default_cast_exact_identity [of zoo "User ''dog''" "Handle (handle_at (User ''dog'') 16)"]
    default_cast_exact_identity [of zoo "User ''dog''" "Handle (handle_at (User ''cat'') 16)"]
  by (simp add: zoo_def handle_at_def get_ptr_def nullptr_def)

text \<open>
  C10. \<open>can_cast_to<U>()\<close> is true exactly when \<open>dynamic_cast_to<U>()\<close> returns a
  non-null pointer, for every provider, target type and program.
\<close>

theorem can_cast_to_agrees_with_cast:
  "can_cast_to prog U pr = (dynamic_cast_to prog U pr \<noteq> nullptr)"
  by (simp add: can_cast_to_def)

section \<open>Properties of the marshalling helpers\<close>

lemma dynamic_cast_handle:
  "dynamic_cast (Reference_handle_class T) pr =
     (if dynamic_class pr = Reference_handle_class T then Some pr else None)"
  by (auto simp: dynamic_cast_def)

lemma dynamic_cast_cast_ptr_provider:
  "dynamic_cast Cast_ptr_provider_class pr = (if is_cast_ptr_provider pr then Some pr else None)"
  by (cases pr) (auto simp: dynamic_cast_def)

lemma dynamic_cast_to_undeclared:
  "\<not> declared_conversion prog T (wrapped_type_info pr) \<Longrightarrow> dynamic_cast_to prog T pr = nullptr"
  by (auto simp: declared_conversion_def dynamic_cast_to_def dyn_cast_def as_type_no_match
      split: option.splits)

text \<open>
  C5. On a provider that is exactly a \<open>reference_handle<T>\<close>, \<open>as_raw_pointer<T>\<close>
  succeeds and returns the handle's \<open>get_ptr()\<close>.
\<close>

theorem as_raw_pointer_exact_handle:
  "handle_type h = T \<Longrightarrow> as_raw_pointer prog T (Some (Handle h)) = Inr (get_ptr h)"
  by (simp add: as_raw_pointer_def dynamic_cast_handle)

theorem as_raw_pointer_exact_handle_witness:
  "handle_type (handle_at (User ''dog'') 16) = User ''dog''
   \<and> as_raw_pointer zoo (User ''dog'') (Some (Handle (handle_at (User ''dog'') 16))) = Inr 16"
  using as_raw_pointer_exact_handle [of "handle_at (User ''dog'') 16" "User ''dog''" zoo]
  by (simp add: handle_at_def get_ptr_def)

text \<open>
  C4. On a non-null provider that is not a \<open>reference_handle<T>\<close>,
  \<open>as_raw_pointer<T>\<close> fails with an invalid-argument fault when the provider is not a
  \<open>cast_ptr_provider\<close>; otherwise its answer is that of the trampoline cast
  \<open>dynamic_cast_to<T>()\<close>: the cast's pointer when it is not null, and an invalid-argument
  fault naming the recorded type and \<open>T\<close> when it is null. The cast is null, and the call
  fails so, whenever the recorded type has no declared conversion to \<open>T\<close>.
\<close>

theorem as_raw_pointer_trampoline:
  assumes "dynamic_class pr \<noteq> Reference_handle_class T"
  shows "(\<not> is_cast_ptr_provider pr \<longrightarrow>
            as_raw_pointer prog T (Some pr) = Inl (Invalid_argument
              ''Opaque pointer wrapper is not a cast_ptr_provider - not accepted by the API''))
       \<and> (is_cast_ptr_provider pr \<and> dynamic_cast_to prog T pr \<noteq> nullptr \<longrightarrow>
            as_raw_pointer prog T (Some pr) = Inr (dynamic_cast_to prog T pr))
       \<and> (is_cast_ptr_provider pr \<and> dynamic_cast_to prog T pr = nullptr \<longrightarrow>
            as_raw_pointer prog T (Some pr) = Inl (Invalid_argument
              (''Cannot cast pointer to '' @ type_name prog (wrapped_type_info pr)
                 @ '' to a pointer to '' @ type_name prog T)))
       \<and> (is_cast_ptr_provider pr \<and> \<not> declared_conversion prog T (wrapped_type_info pr) \<longrightarrow>
            as_raw_pointer prog T (Some pr) = Inl (Invalid_argument
              (''Cannot cast pointer to '' @ type_name prog (wrapped_type_info pr)
                 @ '' to a pointer to '' @ type_name prog T)))"
  using assms
  by (simp add: as_raw_pointer_def dynamic_cast_handle dynamic_cast_cast_ptr_provider
      dynamic_cast_to_undeclared wrapped_type_name_def Let_def)

theorem as_raw_pointer_trampoline_witness:
  "dynamic_class (Handle (handle_at (User ''dog'') 16)) \<noteq> Reference_handle_class (User ''animal'')
   \<and> is_cast_ptr_provider (Handle (handle_at (User ''dog'') 16))
   \<and> dynamic_cast_to zoo (User ''animal'') (Handle (handle_at (User ''dog'') 16)) \<noteq> nullptr
   \<and> as_raw_pointer zoo (User ''animal'') (Some (Handle (handle_at (User ''dog'') 16))) = Inr 24
   \<and> dynamic_class (Handle (handle_at (User ''fish'') 16)) \<noteq> Reference_handle_class (User ''animal'')
   \<and> is_cast_ptr_provider (Handle (handle_at (User ''fish'') 16))
   \<and> \<not> declared_conversion zoo (User ''animal'') (wrapped_type_info (Handle (handle_at (User ''fish'') 16)))
   \<and> as_raw_pointer zoo (User ''animal'') (Some (Handle (handle_at (User ''fish'') 16)))
       = Inl (Invalid_argument ''Cannot cast pointer to fish to a pointer to animal'')
   \<and> dynamic_class (Opaque_provider ''box'' (User ''dog'') 16) \<noteq> Reference_handle_class (User ''animal'')
   \<and> \<not> is_cast_ptr_provider (Opaque_provider ''box'' (User ''dog'') 16)
   \<and> as_raw_pointer zoo (User ''animal'') (Some (Opaque_provider ''box'' (User ''dog'') 16))
       = Inl (Invalid_argument ''Opaque pointer wrapper is not a cast_ptr_provider - not accepted by the API'')"
  using as_raw_pointer_trampoline [of "Handle (handle_at (User ''dog'') 16)" "User ''animal''" zoo]
    as_raw_pointer_trampoline [of "Handle (handle_at (User ''fish'') 16)" "User ''animal''" zoo]
    as_raw_pointer_trampoline [of "Opaque_provider ''box'' (User ''dog'') 16" "User ''animal''" zoo]
  by (simp add: zoo_def handle_at_def get_ptr_def nullptr_def declared_conversion_def
      dynamic_cast_to_def dyn_cast_def static_cast_ptr_def static_cast_void_def)

text \<open>
  C7, as the claim states it, with the wrapped type as the template argument:
  \<open>checked_downcast<dog>\<close> on a handle that wraps exactly \<open>dog\<close> does not return the
  handle. A \<open>reference_handle<dog>\<close> is not a \<open>dog\<close>, the \<open>dynamic_cast\<close> yields the
  null pointer and the call fails with an invalid-argument fault.
\<close>

theorem checked_downcast_wrapped_type_counterexample:
  "checked_downcast zoo (User ''dog'') (Some (Handle (handle_at (User ''dog'') 16)))
     = Inl (Invalid_argument ''Expected type dog, but got an opaque pointer to a type dog'')"
  by (simp add: checked_downcast_def dynamic_cast_def zoo_def handle_at_def wrapped_type_name_def)

text \<open>
  C7, amended. The template argument of \<open>checked_downcast\<close> is the class expected of the
  provider. \<open>checked_downcast<reference_handle<T>>\<close>, which is
  \<open>checked_reference_handle<T>\<close>, on a non-null handle that wraps a type other than \<open>T\<close>
  fails with an invalid-argument fault whose message holds the name of the expected class
  \<open>reference_handle<T>\<close> and the name of the recorded type; on a handle that wraps exactly
  \<open>T\<close> it returns that same handle. For any expected class \<open>C\<close> and any provider, the
  call fails in this way when the \<open>dynamic_cast\<close> to \<open>C\<close> is null and returns the provider
  itself otherwise.
\<close>

theorem checked_downcast_handle_class:
  "(handle_type h \<noteq> T \<longrightarrow>
      checked_downcast prog (Reference_handle_class T) (Some (Handle h)) =
        Inl (Invalid_argument (''Expected type '' @ type_name prog (Reference_handle_class T)
          @ '', but got an opaque pointer to a type '' @ type_name prog (handle_type h))))
   \<and> (handle_type h = T \<longrightarrow>
      checked_downcast prog (Reference_handle_class T) (Some (Handle h)) = Inr (Handle h))
   \<and> checked_reference_handle prog T (Some (Handle h)) =
       checked_downcast prog (Reference_handle_class T) (Some (Handle h))
   \<and> (dynamic_cast C pr = None \<longrightarrow>
      checked_downcast prog C (Some pr) =
        Inl (Invalid_argument (''Expected type '' @ type_name prog C
          @ '', but got an opaque pointer to a type '' @ type_name prog (wrapped_type_info pr))))
   \<and> (dynamic_cast C pr = Some pr \<longrightarrow> checked_downcast prog C (Some pr) = Inr pr)"
  by (simp add: checked_downcast_def checked_reference_handle_def dynamic_cast_handle
      wrapped_type_name_def)

theorem checked_downcast_handle_class_witness:
  "handle_type (handle_at (User ''cat'') 16) \<noteq> User ''dog''
   \<and> checked_downcast zoo (Reference_handle_class (User ''dog''))
        (Some (Handle (handle_at (User ''cat'') 16)))
       = Inl (Invalid_argument
           ''Expected type reference_handle, but got an opaque pointer to a type cat'')
   \<and> handle_type (handle_at (User ''dog'') 16) = User ''dog''
   \<and> checked_downcast zoo (Reference_handle_class (User ''dog''))
        (Some (Handle (handle_at (User ''dog'') 16)))
       = Inr (Handle (handle_at (User ''dog'') 16))
   \<and> dynamic_cast (User ''dog'') (Handle (handle_at (User ''cat'') 16)) = None
   \<and> checked_downcast zoo (User ''dog'') (Some (Handle (handle_at (User ''cat'') 16)))
       = Inl (Invalid_argument ''Expected type dog, but got an opaque pointer to a type cat'')
   \<and> dynamic_cast Cast_ptr_provider_class (Handle (handle_at (User ''dog'') 16))
       = Some (Handle (handle_at (User ''dog'') 16))
   \<and> checked_downcast zoo Cast_ptr_provider_class (Some (Handle (handle_at (User ''dog'') 16)))
       = Inr (Handle (handle_at (User ''dog'') 16))"
  using checked_downcast_handle_class [of "handle_at (User ''cat'') 16" "User ''dog''" zoo
      "User ''dog''" "Handle (handle_at (User ''cat'') 16)"]
    checked_downcast_handle_class [of "handle_at (User ''dog'') 16" "User ''dog''" zoo
      Cast_ptr_provider_class "Handle (handle_at (User ''dog'') 16)"]
  by (simp add: zoo_def handle_at_def dynamic_cast_def)

text \<open>
  C8, as the claim states it: every helper that reads through a provider pointer answers a
  null provider with an invalid-argument fault. The batch helper \<open>as_raw_pointers<dog>\<close>
  on an array of one null provider calls \<open>get_void_ptr()\<close> through the null pointer: it has
  no null test, and what follows is undefined behaviour, not an invalid-argument fault.
\<close>

theorem as_raw_pointers_null_provider_counterexample:
  "as_raw_pointers (User ''dog'') [None] 1 = Inl Undefined_behaviour"
  by (simp add: as_raw_pointers_def)

text \<open>
  C8, amended. The constructor of \<open>reference_handle<T>\<close> from a raw pointer fails with an
  invalid-argument fault on the null pointer, in any state; the single-provider helpers
  \<open>checked_downcast\<close> (downcast), \<open>checked_reference_handle\<close> (handle retrieval) and
  \<open>as_raw_pointer\<close> (dereference) fail with an invalid-argument fault on a null provider.
  The batch helper \<open>as_raw_pointers\<close> is the unchecked path and is not included.
\<close>

theorem null_arguments_rejected:
  "reference_handle_of_ptr T nullptr s = Inl (Invalid_argument ''Pointer must not be nullptr'')
   \<and> checked_downcast prog C None = Inl (Invalid_argument ''The pointer to a reference handle is nullptr'')
   \<and> checked_reference_handle prog T None = Inl (Invalid_argument ''The pointer to a reference handle is nullptr'')
   \<and> as_raw_pointer prog T None = Inl (Invalid_argument ''Pointer is nullptr - not accepted by the API'')"
  by (simp add: reference_handle_of_ptr_def checked_downcast_def checked_reference_handle_def
      as_raw_pointer_def)

lemma as_raw_pointers_loop_all:
  "i \<le> length prs \<Longrightarrow> length result = length prs \<Longrightarrow>
   as_raw_pointers_loop T (map Some prs) (length prs) i result =
     Inr (take i result @ map get_void_ptr (drop i prs))"
proof (induction "length prs - i" arbitrary: i result)
  case 0
  then show ?case by simp
next
  case (Suc k)
  then have lt: "i < length prs" by simp
  have step: "as_raw_pointers_loop T (map Some prs) (length prs) i result =
      as_raw_pointers_loop T (map Some prs) (length prs) (Suc i) (result[i := get_void_ptr (prs ! i)])"
    using lt by (simp add: static_cast_void_def)
  have "as_raw_pointers_loop T (map Some prs) (length prs) (Suc i) (result[i := get_void_ptr (prs ! i)])
      = Inr (take (Suc i) (result[i := get_void_ptr (prs ! i)]) @ map get_void_ptr (drop (Suc i) prs))"
    using Suc lt by (intro Suc.hyps(1)) auto
  also have "take (Suc i) (result[i := get_void_ptr (prs ! i)]) = take i result @ [get_void_ptr (prs ! i)]"
    using lt Suc.prems by (simp add: take_Suc_conv_app_nth)
  also have "(take i result @ [get_void_ptr (prs ! i)]) @ map get_void_ptr (drop (Suc i) prs)
      = take i result @ map get_void_ptr (drop i prs)"
    using lt by (simp add: Cons_nth_drop_Suc [symmetric])
  finally show ?case using step by simp
qed

text \<open>
  C9. On an array of \<open>n\<close> non-null providers, \<open>as_raw_pointers<T>\<close> returns an array
  of \<open>n\<close> pointers whose entry \<open>i\<close> is \<open>get_void_ptr()\<close> of provider \<open>i\<close> read
  as a \<open>T*\<close>. The recorded types of the providers play no part in the result.
\<close>

theorem as_raw_pointers_unchecked:
  "as_raw_pointers T (map Some prs) (int (length prs)) = Inr (map get_void_ptr prs)
   \<and> length (map get_void_ptr prs) = length prs
   \<and> (\<forall>i < length prs. map get_void_ptr prs ! i = static_cast_void T (get_void_ptr (prs ! i)))"
  using as_raw_pointers_loop_all [of 0 prs "replicate (length prs) nullptr" T]
  by (simp add: as_raw_pointers_def static_cast_void_def)

theorem as_raw_pointers_unchecked_witness:
  "as_raw_pointers (User ''dog'')
     [Some (Handle (handle_at (User ''cat'') 16)), Some (Opaque_provider ''box'' (User ''fish'') 40)] 2
     = Inr [16, 40]"
  using as_raw_pointers_unchecked [of "User ''dog''"
      "[Handle (handle_at (User ''cat'') 16), Opaque_provider ''box'' (User ''fish'') 40]"]
  by (simp add: handle_at_def get_ptr_def)

section \<open>Properties of shared ownership\<close>

lemma find_shared_ptr_new:
  "handles s p = None \<Longrightarrow> find_shared_ptr T p s =
   (\<lparr>sp_get = p, sp_block = length (blocks s)\<rparr>,
    s\<lparr>blocks := blocks s @ [\<lparr>managed = p, deleter_type = T, use_count = 2\<rparr>],
      handles := (handles s)(p \<mapsto> \<lparr>sp_get = p, sp_block = length (blocks s)\<rparr>)\<rparr>)"
  by (simp add: find_shared_ptr_def reference_handle_map_get_def create_shared_ptr_def
      sp_new_def sp_copy_def sp_destroy_def static_cast_void_def Let_def)

lemma find_shared_ptr_existing:
  "handles s p = Some sp \<Longrightarrow> sp_block sp < length (blocks s) \<Longrightarrow>
   find_shared_ptr T p s =
   (sp, s\<lparr>blocks := (blocks s)[sp_block sp :=
          (blocks s ! sp_block sp)\<lparr>use_count := Suc (use_count (blocks s ! sp_block sp))\<rparr>]\<rparr>)"
  by (simp add: find_shared_ptr_def reference_handle_map_get_def sp_copy_def sp_destroy_def Let_def)

lemma first_handle:
  "p \<noteq> nullptr \<Longrightarrow> handles s p = None \<Longrightarrow>
   reference_handle_of_ptr T p s = Inr (fresh_handle s T p, shared_by s T p 1)"
  by (simp add: reference_handle_of_ptr_def find_shared_ptr_new shared_by_def fresh_handle_def)

lemma find_shared_ptr_shared_by:
  "find_shared_ptr T' p (shared_by s T p k) =
     (\<lparr>sp_get = p, sp_block = length (blocks s)\<rparr>, shared_by s T p (Suc k))"
  by (simp add: find_shared_ptr_existing [where sp = "\<lparr>sp_get = p, sp_block = length (blocks s)\<rparr>"]
      shared_by_def)

lemma next_handle:
  "p \<noteq> nullptr \<Longrightarrow>
   reference_handle_of_ptr T p (shared_by s T p k) = Inr (fresh_handle s T p, shared_by s T p (Suc k))"
  by (simp add: reference_handle_of_ptr_def find_shared_ptr_shared_by fresh_handle_def)

lemma next_handle_copy:
  "reference_handle_copy (fresh_handle s T p) (shared_by s T p k) =
     (fresh_handle s T p, shared_by s T p (Suc k))"
  by (simp add: reference_handle_copy_def find_shared_ptr_shared_by fresh_handle_def)

lemma destroy_not_last:
  "reference_handle_destroy (fresh_handle s T p) (shared_by s T p (Suc (Suc k))) =
     shared_by s T p (Suc k)"
  by (simp add: reference_handle_destroy_def reference_handle_map_release_def sp_use_count_def
      sp_destroy_def shared_by_def fresh_handle_def get_ptr_def Let_def)

lemma destroy_last:
  "reference_handle_destroy (fresh_handle s T p) (shared_by s T p (Suc 0)) =
     s\<lparr>blocks := blocks s @ [\<lparr>managed = p, deleter_type = T, use_count = 0\<rparr>],
       handles := (handles s)(p := None),
       destructor_calls := destructor_calls s @ [(T, p)]\<rparr>"
  by (simp add: reference_handle_destroy_def reference_handle_map_release_def sp_use_count_def
      sp_destroy_def shared_by_def fresh_handle_def get_ptr_def Let_def)

text \<open>
  A handle built by the raw-pointer constructor holds the address it was given, which is not
  null, provided the registry files each \<open>shared_ptr\<close> under its own stored pointer.
\<close>

lemma constructed_handle_ptr:
  assumes "reference_handle_of_ptr T p s = Inr (h, s')"
    and "\<And>sp. handles s p = Some sp \<Longrightarrow> sp_get sp = p"
  shows "get_ptr h = p \<and> p \<noteq> nullptr \<and> handle_type h = T"
proof (cases "handles s p")
  case None
  with assms(1) show ?thesis
    by (auto simp: reference_handle_of_ptr_def find_shared_ptr_new get_ptr_def split: if_splits)
next
  case (Some sp)
  with assms show ?thesis
    by (auto simp: reference_handle_of_ptr_def find_shared_ptr_def reference_handle_map_get_def
        sp_copy_def get_ptr_def Let_def split: if_splits)
qed

lemma count_shared_by:
  "count (shared_by s T p k) (fresh_handle s T p) = int k"
  by (simp add: count_def sp_use_count_def shared_by_def fresh_handle_def)

text \<open>
  C1. Let \<open>p\<close> be a non-null address that the registry does not know yet. Two handles
  created over \<open>p\<close> (the second through the raw-pointer constructor, through
  \<open>new_reference_handle\<close> or through the copy constructor, with the same outcome) share
  one control block. Destroying one of them runs no destructor; destroying both, in either
  order, runs the destructor of the object at \<open>p\<close> exactly once and leaves the registry
  without an entry for \<open>p\<close>.
\<close>

theorem two_handles_one_destructor_call:
  assumes "p \<noteq> nullptr" and "handles s p = None"
  shows "\<exists>h1 s1 h2 s2.
      reference_handle_of_ptr T p s = Inr (h1, s1)
    \<and> reference_handle_of_ptr T p s1 = Inr (h2, s2)
    \<and> new_reference_handle h1 s1 = Inr (h2, s2)
    \<and> reference_handle_copy h1 s1 = (h2, s2)
    \<and> length (blocks s2) = Suc (length (blocks s))
    \<and> destructor_calls s2 = destructor_calls s
    \<and> destructor_calls (reference_handle_destroy h1 s2) = destructor_calls s
    \<and> destructor_calls (reference_handle_destroy h2 (reference_handle_destroy h1 s2))
        = destructor_calls s @ [(T, p)]
    \<and> handles (reference_handle_destroy h2 (reference_handle_destroy h1 s2)) p = None
    \<and> destructor_calls (reference_handle_destroy h2 s2) = destructor_calls s
    \<and> destructor_calls (reference_handle_destroy h1 (reference_handle_destroy h2 s2))
        = destructor_calls s @ [(T, p)]
    \<and> handles (reference_handle_destroy h1 (reference_handle_destroy h2 s2)) p = None"
proof -
  let ?h = "fresh_handle s T p"
  have c1: "reference_handle_of_ptr T p s = Inr (?h, shared_by s T p 1)"
    using assms by (rule first_handle)
  have c2: "reference_handle_of_ptr T p (shared_by s T p 1) = Inr (?h, shared_by s T p 2)"
    using next_handle [OF assms(1), of T s 1] by (simp add: numeral_2_eq_2)
  have c3: "new_reference_handle ?h (shared_by s T p 1) = Inr (?h, shared_by s T p 2)"
    using c2 by (simp add: new_reference_handle_def fresh_handle_def get_ptr_def)
  have c4: "reference_handle_copy ?h (shared_by s T p 1) = (?h, shared_by s T p 2)"
    using next_handle_copy [of s T p 1] by (simp add: numeral_2_eq_2)
  have d1: "reference_handle_destroy ?h (shared_by s T p 2) = shared_by s T p 1"
    using destroy_not_last [of s T p 0] by (simp add: numeral_2_eq_2)
  have d2: "reference_handle_destroy ?h (shared_by s T p 1) =
      s\<lparr>blocks := blocks s @ [\<lparr>managed = p, deleter_type = T, use_count = 0\<rparr>],
        handles := (handles s)(p := None),
        destructor_calls := destructor_calls s @ [(T, p)]\<rparr>"
    using destroy_last [of s T p] by simp
  have "length (blocks (shared_by s T p 2)) = Suc (length (blocks s))"
    and "destructor_calls (shared_by s T p 2) = destructor_calls s"
    and "destructor_calls (shared_by s T p 1) = destructor_calls s"
    by (simp_all add: shared_by_def)
  with c1 c2 c3 c4 d1 d2 show ?thesis by simp
qed

theorem two_handles_one_destructor_call_witness:
  "(16::nat) \<noteq> nullptr \<and> handles (empty_state :: string state) 16 = None
   \<and> (\<exists>h1 s1 h2 s2.
        reference_handle_of_ptr (User ''dog'') 16 empty_state = Inr (h1, s1)
      \<and> reference_handle_of_ptr (User ''dog'') 16 s1 = Inr (h2, s2)
      \<and> destructor_calls (reference_handle_destroy h2 (reference_handle_destroy h1 s2))
          = [(User ''dog'', 16)]
      \<and> handles (reference_handle_destroy h2 (reference_handle_destroy h1 s2)) 16 = None)"
proof -
  have a: "(16::nat) \<noteq> nullptr" by (simp add: nullptr_def)
  have b: "handles (empty_state :: string state) 16 = None" by (simp add: empty_state_def)
  have c: "destructor_calls (empty_state :: string state) = []" by (simp add: empty_state_def)
  show ?thesis
    using two_handles_one_destructor_call [OF a b, of "User ''dog''"] a b c by auto
qed

text \<open>
  C2, as the claim states it: the count of a single live handle is 0. For the only handle
  over the object at address 16, created in the empty state, \<open>count()\<close> is 1.
\<close>

theorem single_handle_count_counterexample:
  "reference_handle_of_ptr (User ''dog'') 16 empty_state = Inr (handle_at (User ''dog'') 16, one_dog)
   \<and> count one_dog (handle_at (User ''dog'') 16) = 1"
  by (simp add: reference_handle_of_ptr_def find_shared_ptr_new empty_state_def one_dog_def
      handle_at_def count_def sp_use_count_def nullptr_def)

text \<open>
  C2, amended. For a handle \<open>h1\<close> that is the only live handle of its object,
  \<open>h1.count()\<close> is 1; after \<open>h2 = h1.new_reference_handle()\<close> both counts are 2; after
  \<open>h2\<close> is destroyed \<open>h1.count()\<close> is 1 again. The count is the use count of the
  control block less the registry's own share, that is the number of live handles.
\<close>

theorem count_is_number_of_handles:
  assumes "p \<noteq> nullptr" and "handles s p = None"
  shows "\<exists>h1 s1 h2 s2.
      reference_handle_of_ptr T p s = Inr (h1, s1)
    \<and> count s1 h1 = 1
    \<and> sp_use_count s1 (sharedPtr h1) = 2
    \<and> new_reference_handle h1 s1 = Inr (h2, s2)
    \<and> count s2 h1 = 2 \<and> count s2 h2 = 2
    \<and> sp_use_count s2 (sharedPtr h1) = 3
    \<and> count (reference_handle_destroy h2 s2) h1 = 1"
proof -
  let ?h = "fresh_handle s T p"
  have c1: "reference_handle_of_ptr T p s = Inr (?h, shared_by s T p 1)"
    using assms by (rule first_handle)
  have c2: "reference_handle_of_ptr T p (shared_by s T p 1) = Inr (?h, shared_by s T p 2)"
    using next_handle [OF assms(1), of T s 1] by (simp add: numeral_2_eq_2)
  have c3: "new_reference_handle ?h (shared_by s T p 1) = Inr (?h, shared_by s T p 2)"
    using c2 by (simp add: new_reference_handle_def fresh_handle_def get_ptr_def)
  have d1: "reference_handle_destroy ?h (shared_by s T p 2) = shared_by s T p 1"
    using destroy_not_last [of s T p 0] by (simp add: numeral_2_eq_2)
  have u: "sp_use_count (shared_by s T p 1) (sharedPtr ?h) = 2"
      "sp_use_count (shared_by s T p 2) (sharedPtr ?h) = 3"
    by (simp_all add: sp_use_count_def shared_by_def fresh_handle_def)
  show ?thesis
    using c1 c3 d1 u count_shared_by [of s T p 1] count_shared_by [of s T p 2] by simp
qed

theorem count_is_number_of_handles_witness:
  "(16::nat) \<noteq> nullptr \<and> handles (empty_state :: string state) 16 = None
   \<and> (\<exists>h1 s1 h2 s2.
        reference_handle_of_ptr (User ''dog'') 16 empty_state = Inr (h1, s1)
      \<and> count s1 h1 = 1
      \<and> new_reference_handle h1 s1 = Inr (h2, s2)
      \<and> count s2 h1 = 2 \<and> count s2 h2 = 2
      \<and> count (reference_handle_destroy h2 s2) h1 = 1)"
proof -
  have a: "(16::nat) \<noteq> nullptr" by (simp add: nullptr_def)
  have b: "handles (empty_state :: string state) 16 = None" by (simp add: empty_state_def)
  show ?thesis
    using count_is_number_of_handles [OF a b, of "User ''dog''"] a b by auto
qed

end
